theory Spec2Isabelle
  imports Complex_Main "HOL-Library.Sublist"
begin

section \<open>Data model\<close>

text \<open>
  The dashboard of \<^verbatim>\<open>src/main.py\<close> moves three kinds of rows through pandas data
  frames. A data frame is modelled as the list of its rows, in row order; a frame is
  \<^verbatim>\<open>.empty\<close> exactly when the list is \<open>[]\<close>. A calendar day (\<^verbatim>\<open>datetime.date\<close>) is the
  number of days since 1970-01-01.
\<close>

type_synonym day = int

record dated =
  date :: day

text \<open>A row of the frame \<^verbatim>\<open>fetch_defi_llama_tvl\<close> returns: columns \<^verbatim>\<open>date\<close>, \<^verbatim>\<open>tvl_usd\<close>.\<close>

record tvl_row = dated +
  tvl_usd :: real

text \<open>
  A row of the frame a Dune query returns: the columns of the SQL in \<^verbatim>\<open>main.py\<close>.
  \<^verbatim>\<open>avg_gas_fee_usd\<close> is \<open>None\<close> where the cell is missing (SQL NULL, pandas NaN).
\<close>

record dune_row = dated +
  daily_active_users :: int
  transaction_count :: int
  avg_gas_fee_usd :: "real option"

text \<open>
  A row of a merged frame carries the columns of one TVL row and of one Dune row that
  share their \<^verbatim>\<open>date\<close>; it is modelled as the pair of the two rows.
\<close>

type_synonym merged_row = "tvl_row \<times> dune_row"

section \<open>Merge stage\<close>

text \<open>
  \<^verbatim>\<open>pd.merge(left, right, on='date', how='inner')\<close> as pandas documents it: the rows of
  the result are the pairs of a left and a right row with equal key, in the order of the
  left rows, and for one left row in the order of the right rows.
\<close>

definition pd_merge_inner :: "'a dated_scheme list \<Rightarrow> 'b dated_scheme list
    \<Rightarrow> ('a dated_scheme \<times> 'b dated_scheme) list" where
  "pd_merge_inner left right =
     concat (map (\<lambda>l. map (Pair l) (filter (\<lambda>r. date r = date l) right)) left)"

text \<open>
  \<^verbatim>\<open>merge_data(tvl_df, dune_df)\<close>, lines 237 to 241. The function is written for any two
  frames with a \<^verbatim>\<open>date\<close> column, so that it can be called with the arguments in either
  order; the dashboard calls it with a TVL frame and a Dune frame. Frames without a
  \<^verbatim>\<open>date\<close> column, on which \<^verbatim>\<open>pd.merge\<close> raises \<^verbatim>\<open>KeyError\<close>, are outside the row types.
\<close>

definition merge_data :: "'a dated_scheme list \<Rightarrow> 'b dated_scheme list
    \<Rightarrow> ('a dated_scheme \<times> 'b dated_scheme) list" where
  "merge_data tvl_df dune_df =
     (if tvl_df = [] \<or> dune_df = [] then [] else pd_merge_inner tvl_df dune_df)"

section \<open>Python values: exceptions, strings, number formatting\<close>

text \<open>
  An exception is its class and the text \<^verbatim>\<open>str(e)\<close> gives. Only the classes the program
  tells apart are kept: \<^verbatim>\<open>requests.exceptions.RequestException\<close> (with its subclasses
  for connection errors, HTTP error statuses and bodies that are not JSON),
  \<^verbatim>\<open>KeyError\<close>, \<^verbatim>\<open>ValueError\<close>, and the plain \<^verbatim>\<open>Exception\<close> the query functions raise.
\<close>

datatype exn_class = RequestException | KeyError | ValueError | Exception

datatype exn = Raise exn_class string

fun exn_class_of :: "exn \<Rightarrow> exn_class" where
  "exn_class_of (Raise c m) = c"

fun str_of :: "exn \<Rightarrow> string" where
  "str_of (Raise c m) = m"

text \<open>Decimal text of a number, as \<^verbatim>\<open>str(n)\<close> and \<^verbatim>\<open>f"{n}"\<close> print an \<^verbatim>\<open>int\<close>.\<close>

definition digit_char :: "nat \<Rightarrow> char" where
  "digit_char d = ''0123456789'' ! (d mod 10)"

fun show_nat :: "nat \<Rightarrow> string" where
  "show_nat n = (if n < 10 then [digit_char n] else show_nat (n div 10) @ [digit_char (n mod 10)])"

declare show_nat.simps [simp del]

definition show_int :: "int \<Rightarrow> string" where
  "show_int i = (if i < 0 then ''-'' @ show_nat (nat (- i)) else show_nat (nat i))"

text \<open>
  \<^verbatim>\<open>s.lower()\<close> on the ASCII letters, and \<^verbatim>\<open>needle in hay\<close> on strings. A string is its
  list of bytes; bytes outside ASCII are left alone by \<open>lower\<close>.
\<close>

definition lower_char :: "char \<Rightarrow> char" where
  "lower_char c =
     (case map_of (zip ''ABCDEFGHIJKLMNOPQRSTUVWXYZ'' ''abcdefghijklmnopqrstuvwxyz'') c of
        Some l \<Rightarrow> l
      | None \<Rightarrow> c)"

definition lower :: "string \<Rightarrow> string" where
  "lower s = map lower_char s"

definition str_in :: "string \<Rightarrow> string \<Rightarrow> bool" where
  "str_in needle hay = sublist needle hay"

text \<open>
  \<^verbatim>\<open>int(s)\<close> on a string: surrounding ASCII white space is dropped, one sign is allowed,
  then decimal digits follow, with single underscores allowed between digits. \<open>None\<close> is
  the \<^verbatim>\<open>ValueError\<close>.
\<close>

definition is_space :: "char \<Rightarrow> bool" where
  "is_space c = (c \<in> set [CHR 0x20, CHR 0x09, CHR 0x0A, CHR 0x0B, CHR 0x0C, CHR 0x0D,
                            CHR 0x1C, CHR 0x1D, CHR 0x1E, CHR 0x1F])"

definition strip :: "string \<Rightarrow> string" where
  "strip s = rev (dropWhile is_space (rev (dropWhile is_space s)))"

definition digit_value :: "char \<Rightarrow> nat option" where
  "digit_value c = map_of (zip ''0123456789'' [0, 1, 2, 3, 4, 5, 6, 7, 8, 9]) c"

fun parse_digits :: "bool \<Rightarrow> nat \<Rightarrow> string \<Rightarrow> nat option" where
  "parse_digits after_digit acc [] = (if after_digit then Some acc else None)"
| "parse_digits after_digit acc (c # cs) =
     (case digit_value c of
        Some d \<Rightarrow> parse_digits True (acc * 10 + d) cs
      | None \<Rightarrow> if c = CHR ''_'' \<and> after_digit then parse_digits False acc cs else None)"

definition py_int :: "string \<Rightarrow> int option" where
  "py_int s =
     (case strip s of
        [] \<Rightarrow> None
      | c # cs \<Rightarrow>
          if c = CHR ''-'' then map_option (\<lambda>n. - int n) (parse_digits False 0 cs)
          else if c = CHR ''+'' then map_option int (parse_digits False 0 cs)
          else map_option int (parse_digits False 0 (c # cs)))"

text \<open>
  \<^verbatim>\<open>f"{x:.2f}"\<close>: two decimals, rounded to nearest with ties to even, a minus sign for a
  negative value. The value is a real number here; the rounding a 64-bit float adds
  before it is printed is not modelled.
\<close>

definition round_half_even :: "real \<Rightarrow> int" where
  "round_half_even x =
     (let f = \<lfloor>x\<rfloor>; r = x - of_int f
      in if r < 1 / 2 then f else if 1 / 2 < r then f + 1 else if even f then f else f + 1)"

definition fmt_2f :: "real \<Rightarrow> string" where
  "fmt_2f x =
     (let q = nat (round_half_even (\<bar>x\<bar> * 100))
      in (if x < 0 then ''-'' else []) @ show_nat (q div 100) @ ''.''
           @ [digit_char (q div 10), digit_char q])"

text \<open>A float that may be NaN: \<open>None\<close> is NaN, which \<^verbatim>\<open>f"{x:.2f}"\<close> prints as \<^verbatim>\<open>nan\<close>.\<close>

definition fmt_float_2f :: "real option \<Rightarrow> string" where
  "fmt_float_2f v = (case v of None \<Rightarrow> ''nan'' | Some x \<Rightarrow> fmt_2f x)"

text \<open>\<^verbatim>\<open>f"{n:,}"\<close> on an \<^verbatim>\<open>int\<close>: groups of three digits separated by commas.\<close>

fun group_thousands :: "nat \<Rightarrow> string" where
  "group_thousands n =
     (if n < 1000 then show_nat n
      else group_thousands (n div 1000) @ '','' @
           [digit_char (n div 100), digit_char (n div 10), digit_char n])"

declare group_thousands.simps [simp del]

definition fmt_thousands :: "int \<Rightarrow> string" where
  "fmt_thousands i = (if i < 0 then ''-'' else []) @ group_thousands (nat \<bar>i\<bar>)"

section \<open>TVL fetcher\<close>

text \<open>
  What the DefiLlama endpoint can answer to the one GET of \<^verbatim>\<open>fetch_defi_llama_tvl\<close>.
  \<^item> \<open>NoReply m\<close>: \<^verbatim>\<open>requests.get\<close> raises a \<^verbatim>\<open>RequestException\<close> (no connection, timeout).
  \<^item> \<open>Reply status body\<close>: a response; \<^verbatim>\<open>raise_for_status\<close> raises \<^verbatim>\<open>HTTPError\<close> for a
    status from 400 to 599, and \<^verbatim>\<open>response.json()\<close> raises requests' \<^verbatim>\<open>JSONDecodeError\<close>
    for a body that is not JSON; both are subclasses of \<^verbatim>\<open>RequestException\<close>
    (requests 2.27 and later).
  \<^item> A JSON body is an array of points \<^verbatim>\<open>{date, totalLiquidityUSD}\<close>, the provider's
    documented shape; other JSON shapes are not modelled. A \<^verbatim>\<open>date\<close> cell is either one
    that \<^verbatim>\<open>pd.to_numeric\<close> reads as a whole number of seconds (a number, or a numeric
    string), or a string it cannot parse.
\<close>

datatype date_cell = Seconds int | NotNumeric string

record llama_point =
  point_date :: date_cell
  totalLiquidityUSD :: real

datatype json_body = NotJson | JsonArray "llama_point list"

datatype http_reply = NoReply string | Reply nat json_body

text \<open>
  The network: \<open>serve url k\<close> is the answer to a GET of \<open>url\<close> when \<open>k\<close> requests
  were sent before it; \<open>sent\<close> logs the requests.
\<close>

record http_world =
  serve :: "string \<Rightarrow> nat \<Rightarrow> http_reply"
  sent :: "string list"

definition requests_get :: "string \<Rightarrow> http_world \<Rightarrow> http_reply \<times> http_world" where
  "requests_get url w = (serve w url (length (sent w)), w\<lparr>sent := sent w @ [url]\<rparr>)"

text \<open>
  \<^verbatim>\<open>pd.to_numeric\<close> on the \<^verbatim>\<open>date\<close> column: \<^verbatim>\<open>ValueError\<close> at the first cell it cannot
  parse (\<open>i\<close> is the position of the head of the list).
\<close>

fun pd_to_numeric :: "nat \<Rightarrow> date_cell list \<Rightarrow> exn + int list" where
  "pd_to_numeric i [] = Inr []"
| "pd_to_numeric i (Seconds s # cs) =
     (case pd_to_numeric (Suc i) cs of Inl e \<Rightarrow> Inl e | Inr ss \<Rightarrow> Inr (s # ss))"
| "pd_to_numeric i (NotNumeric t # cs) =
     Inl (Raise ValueError
           (''Unable to parse string '' @ [CHR 0x22] @ t @ [CHR 0x22] @ '' at position '' @ show_nat i))"

text \<open>\<^verbatim>\<open>pd.to_datetime(seconds, unit='s').dt.date\<close>: the calendar day of an instant.\<close>

definition date_of_seconds :: "int \<Rightarrow> day" where
  "date_of_seconds s = s div 86400"

text \<open>
  Lines 77 to 81: the frame of a JSON array. \<^verbatim>\<open>pd.DataFrame([])\<close> has no columns, so
  \<^verbatim>\<open>df['date']\<close> raises \<^verbatim>\<open>KeyError\<close> on the empty array.
\<close>

definition frame_of_points :: "llama_point list \<Rightarrow> exn + tvl_row list" where
  "frame_of_points data =
     (if data = [] then Inl (Raise KeyError [CHR 0x27, CHR ''d'', CHR ''a'', CHR ''t'', CHR ''e'', CHR 0x27])
      else case pd_to_numeric 0 (map point_date data) of
             Inl e \<Rightarrow> Inl e
           | Inr secs \<Rightarrow>
               Inr (map2 (\<lambda>s p. \<lparr>date = date_of_seconds s, tvl_usd = totalLiquidityUSD p\<rparr>)
                      secs data))"

text \<open>
  \<^verbatim>\<open>fetch_defi_llama_tvl(chain_slug)\<close>, lines 67 to 84. Only a \<^verbatim>\<open>RequestException\<close> is
  caught and turned into the empty frame; any other exception leaves the function. The
  one-hour cache of \<^verbatim>\<open>st.cache_data\<close> is not modelled: this is the function on a cache miss.
\<close>

definition llama_url :: "string \<Rightarrow> string" where
  "llama_url chain_slug = ''https://api.llama.fi/charts/'' @ chain_slug"

definition fetch_defi_llama_tvl :: "string \<Rightarrow> http_world \<Rightarrow> (exn + tvl_row list) \<times> http_world" where
  "fetch_defi_llama_tvl chain_slug w =
     (let url = llama_url chain_slug;
          (reply, w') = requests_get url w
      in (case reply of
            NoReply m \<Rightarrow> Inr []
          | Reply status body \<Rightarrow>
              if 400 \<le> status \<and> status < 600 then Inr []
              else (case body of
                      NotJson \<Rightarrow> Inr []
                    | JsonArray data \<Rightarrow> frame_of_points data),
          w'))"

section \<open>Analytics query runner\<close>

text \<open>
  \<^verbatim>\<open>dune_client\<close>, lines 19 to 26: \<^verbatim>\<open>None\<close> when \<^verbatim>\<open>DUNE_API_KEY\<close> is unset or empty.
\<close>

datatype client = DuneClient string

definition truthy :: "string option \<Rightarrow> bool" where
  "truthy v = (case v of None \<Rightarrow> False | Some s \<Rightarrow> s \<noteq> [])"

definition dune_client :: "string option \<Rightarrow> client option" where
  "dune_client DUNE_API_KEY =
     (if \<not> truthy DUNE_API_KEY then None else Some (DuneClient (the DUNE_API_KEY)))"

text \<open>
  The Dune backend. A call either raises an exception whose text is \<open>m\<close> (\<open>Raises m\<close>)
  or returns. A frame of result rows is modelled after its \<^verbatim>\<open>date\<close> column has been
  normalised by \<^verbatim>\<open>pd.to_datetime(...).dt.date\<close>: each row carries the calendar day its
  date cell denotes (the SQL truncates to the day).

  The object \<^verbatim>\<open>run_sql\<close> returns is described by the attributes the code probes with
  \<^verbatim>\<open>hasattr\<close>: \<open>None\<close> is an attribute that is absent (for \<open>result_attr\<close>: absent or
  falsy); the rows of an attribute that is present are a list (\<open>[]\<close> also stands for a
  value \<^verbatim>\<open>None\<close>, which \<^verbatim>\<open>if rows:\<close> treats alike).
\<close>

datatype 'a outcome = Raises string | Returns 'a

record sql_inner =
  inner_rows :: "dune_row list option"
  inner_data_rows :: "dune_row list option"

record sql_result =
  result_attr :: "sql_inner option"
  get_rows_method :: "dune_row list outcome option"
  rows_attr :: "dune_row list option"

datatype dune_request = RunQueryDataframe int | RunSql string string

record dune_world =
  run_query_dataframe :: "int \<Rightarrow> dune_row list outcome"
  run_sql :: "string \<Rightarrow> string \<Rightarrow> sql_result outcome"
  calls :: "dune_request list"

text \<open>\<^verbatim>\<open>query_dune_api_by_id(query_id)\<close>, lines 86 to 101.\<close>

definition query_id_error :: "int \<Rightarrow> string \<Rightarrow> string" where
  "query_id_error query_id msg =
     ''Dune API error for query ID '' @ show_int query_id @ '': '' @ msg"

definition query_dune_api_by_id :: "client option \<Rightarrow> int \<Rightarrow> dune_world
    \<Rightarrow> (exn + dune_row list) \<times> dune_world" where
  "query_dune_api_by_id cl query_id w =
     (case cl of
        None \<Rightarrow> (Inr [], w)
      | Some c \<Rightarrow>
          (case run_query_dataframe w query_id of
             Raises m \<Rightarrow>
               Inl (Raise Exception (query_id_error query_id m))
           | Returns results_df \<Rightarrow> Inr results_df,
           w\<lparr>calls := calls w @ [RunQueryDataframe query_id]\<rparr>))"

text \<open>Lines 120 to 130: where the rows are looked for in the object \<^verbatim>\<open>run_sql\<close> returned.\<close>

definition extract_rows :: "sql_result \<Rightarrow> dune_row list option outcome" where
  "extract_rows r =
     (case result_attr r of
        Some inner \<Rightarrow>
          (case inner_rows inner of
             Some rs \<Rightarrow> Returns (Some rs)
           | None \<Rightarrow> Returns (inner_data_rows inner))
      | None \<Rightarrow>
          (case get_rows_method r of
             Some (Raises m) \<Rightarrow> Raises m
           | Some (Returns rs) \<Rightarrow> Returns (Some rs)
           | None \<Rightarrow> Returns (rows_attr r)))"

text \<open>Line 142: the test for a failure that asks for a paid plan.\<close>

definition is_paid_plan_message :: "string \<Rightarrow> bool" where
  "is_paid_plan_message error_msg =
     (str_in ''paid plan'' (lower error_msg) \<or> str_in ''upgrade'' (lower error_msg))"

definition paid_plan_error :: string where
  "paid_plan_error =
     ''Dune API requires a paid plan to create queries programmatically. '' @
     ''Please create queries manually in Dune Analytics UI and use query IDs instead. '' @
     ''Set ARBITRUM_QUERY_ID and OPTIMISM_QUERY_ID environment variables.''"

definition generic_error :: "string \<Rightarrow> string \<Rightarrow> string" where
  "generic_error query_name error_msg = ''Dune API error for '' @ query_name @ '': '' @ error_msg"

text \<open>\<^verbatim>\<open>query_dune_api_by_sql(query_name, sql_query)\<close>, lines 103 to 148.\<close>

definition query_dune_api_by_sql :: "client option \<Rightarrow> string \<Rightarrow> string \<Rightarrow> dune_world
    \<Rightarrow> (exn + dune_row list) \<times> dune_world" where
  "query_dune_api_by_sql cl query_name sql_query w =
     (case cl of
        None \<Rightarrow> (Inr [], w)
      | Some c \<Rightarrow>
          (let tried =
                 (case run_sql w query_name sql_query of
                    Raises m \<Rightarrow> Raises m
                  | Returns r \<Rightarrow>
                      (case extract_rows r of
                         Raises m \<Rightarrow> Raises m
                       | Returns rows \<Rightarrow>
                           Returns (case rows of None \<Rightarrow> [] | Some rs \<Rightarrow> rs)))
           in case tried of
                Returns results_df \<Rightarrow> Inr results_df
              | Raises error_msg \<Rightarrow>
                  if is_paid_plan_message error_msg then Inl (Raise Exception paid_plan_error)
                  else Inl (Raise Exception (generic_error query_name error_msg)),
           w\<lparr>calls := calls w @ [RunSql query_name sql_query]\<rparr>))"

section \<open>What the page shows\<close>

text \<open>
  A run of the script is modelled by the list of Streamlit calls it makes, in order.
  A chart is its title and its traces (name, x values, y values); the column containers
  of \<^verbatim>\<open>st.columns\<close> are layout and are not recorded.
\<close>

datatype ui =
    StError string
  | StWarning string
  | StSuccess string
  | StToast string
  | StTitle string
  | StHeader string
  | StSubheader string
  | StMetric string string
  | StPlotlyChart string "(string \<times> day list \<times> real option list) list"
  | StDataframe "merged_row list"
  | StInfo string
  | StExpander string "ui list"

section \<open>Loading the query data of one chain\<close>

text \<open>
  The two blocks of lines 184 to 234 differ in the chain only: its name in lower case
  (the \<^verbatim>\<open>query_name\<close>), its name as printed, the name of the environment variable with
  its query id, and its SQL text.
\<close>

record chain =
  slug :: string
  title :: string
  query_id_var :: string
  sql_query :: string

definition paid_plan_notice :: "chain \<Rightarrow> string" where
  "paid_plan_notice ch =
     [CHR 0xE2, CHR 0x9D, CHR 0x8C] @
     '' Dune API requires a paid plan for raw SQL queries. Please set '' @ query_id_var ch @
     '' environment variable. See setup instructions above.''"

definition raw_sql_warning :: "chain \<Rightarrow> string" where
  "raw_sql_warning ch =
     [CHR 0xE2, CHR 0x9A, CHR 0xA0, CHR 0xEF, CHR 0xB8, CHR 0x8F] @ '' '' @ query_id_var ch @
     '' not set. Attempting to use raw SQL (requires paid Dune plan)...''"

text \<open>
  The body of the outer \<^verbatim>\<open>try\<close> up to the emptiness test: the messages shown, and either
  the exception that reaches the outer \<^verbatim>\<open>except\<close> or the frame.
\<close>

definition run_chain_query :: "chain \<Rightarrow> string option \<Rightarrow> client option \<Rightarrow> dune_world
    \<Rightarrow> (ui list \<times> (exn + dune_row list)) \<times> dune_world" where
  "run_chain_query ch query_id cl w =
     (if truthy query_id then
        (case py_int (the query_id) of
           None \<Rightarrow>
             (([StError (''Invalid '' @ query_id_var ch @ '': '' @ the query_id @
                          ''. Must be a number.'')], Inr []), w)
         | Some n \<Rightarrow>
             (case query_dune_api_by_id cl n w of
                (Inl e, w') \<Rightarrow>
                  if exn_class_of e = ValueError then
                    (([StError (''Invalid '' @ query_id_var ch @ '': '' @ the query_id @
                                 ''. Must be a number.'')], Inr []), w')
                  else (([], Inl e), w')
              | (Inr df, w') \<Rightarrow> (([], Inr df), w')))
      else
        (case query_dune_api_by_sql cl (slug ch) (sql_query ch) w of
           (Inl sql_error, w') \<Rightarrow>
             if str_in ''paid plan'' (lower (str_of sql_error)) then
               (([StWarning (raw_sql_warning ch), StError (paid_plan_notice ch)], Inr []), w')
             else (([StWarning (raw_sql_warning ch)], Inl sql_error), w')
         | (Inr df, w') \<Rightarrow> (([StWarning (raw_sql_warning ch)], Inr df), w')))"

definition load_dune :: "chain \<Rightarrow> string option \<Rightarrow> client option \<Rightarrow> dune_world
    \<Rightarrow> (ui list \<times> dune_row list) \<times> dune_world" where
  "load_dune ch query_id cl w =
     (case run_chain_query ch query_id cl w of
        ((shown, Inr df), w') \<Rightarrow>
          ((StToast (''Executing Dune query for '' @ slug ch @ ''...'') # shown @
            (if df = [] then
               [StWarning (title ch @ '' Dune query returned no data. '' @
                           ''This may be normal if the query is still executing.'')]
             else []), df), w')
      | ((shown, Inl e), w') \<Rightarrow>
          ((StToast (''Executing Dune query for '' @ slug ch @ ''...'') # shown @
            [StError (''Error querying Dune API for '' @ slug ch @ '': '' @ str_of e)], []), w'))"

section \<open>Presentation layer\<close>

text \<open>
  \<^verbatim>\<open>Series.corr\<close> (Pearson) on two columns: pairs with a missing value are dropped; the
  value is NaN (\<open>None\<close>) when no pair is left or when one of the two columns has no
  variation, since the quotient is then 0/0. Exact real arithmetic; the rounding of
  64-bit floats is not modelled.
\<close>

definition mean :: "real list \<Rightarrow> real" where
  "mean xs = sum_list xs / real (length xs)"

definition pearson :: "(real \<times> real) list \<Rightarrow> real option" where
  "pearson ps =
     (let xs = map fst ps; ys = map snd ps;
          dx = map (\<lambda>x. x - mean xs) xs; dy = map (\<lambda>y. y - mean ys) ys;
          sxx = sum_list (map (\<lambda>d. d * d) dx);
          syy = sum_list (map (\<lambda>d. d * d) dy);
          sxy = sum_list (map2 (\<lambda>a b. a * b) dx dy)
      in if ps = [] \<or> sxx = 0 \<or> syy = 0 then None
         else Some (sxy / (sqrt sxx * sqrt syy)))"

definition gas_tx_pairs :: "merged_row list \<Rightarrow> (real \<times> real) list" where
  "gas_tx_pairs df =
     List.map_filter
       (\<lambda>row. map_option (\<lambda>g. (g, real_of_int (transaction_count (snd row))))
                 (avg_gas_fee_usd (snd row))) df"

text \<open>
  \<^verbatim>\<open>full_df['avg_gas_fee_usd'].corr(full_df['transaction_count'])\<close> on a frame with the
  numeric columns of the model: it raises nothing.
\<close>

definition gas_tx_corr :: "merged_row list \<Rightarrow> exn + real option" where
  "gas_tx_corr df = Inr (pearson (gas_tx_pairs df))"

text \<open>
  Lines 300 to 310. The two correlations are computed inside the \<^verbatim>\<open>try\<close>; the function
  computing them is a parameter, so that the \<^verbatim>\<open>except\<close> branch is covered whatever the
  library call raises.
\<close>

definition correlation_section :: "(merged_row list \<Rightarrow> exn + real option)
    \<Rightarrow> merged_row list \<Rightarrow> merged_row list \<Rightarrow> ui list" where
  "correlation_section corr arbitrum_full_df optimism_full_df =
     StHeader ''Correlation Analysis'' #
     (case corr arbitrum_full_df of
        Inl e \<Rightarrow> [StWarning (''Could not calculate correlation: '' @ str_of e)]
      | Inr arb_gas_corr \<Rightarrow>
          (case corr optimism_full_df of
             Inl e \<Rightarrow> [StWarning (''Could not calculate correlation: '' @ str_of e)]
           | Inr op_gas_corr \<Rightarrow>
               [StMetric ''Arbitrum: Gas Fee vs. Tx Count Corr.'' (fmt_float_2f arb_gas_corr),
                StMetric ''Optimism: Gas Fee vs. Tx Count Corr.'' (fmt_float_2f op_gas_corr)]))"

text \<open>
  Lines 254 to 263: the tiles show the last row of each merged frame. They are built
  only where both frames are non-empty, so \<^verbatim>\<open>iloc[-1]\<close> does not raise.
\<close>

definition fmt_billions :: "real \<Rightarrow> string" where
  "fmt_billions v = ''$'' @ fmt_2f (v / 1000000000) @ ''B''"

definition latest_tiles :: "merged_row list \<Rightarrow> merged_row list \<Rightarrow> ui list" where
  "latest_tiles arbitrum_full_df optimism_full_df =
     (let arb_latest = last arbitrum_full_df; op_latest = last optimism_full_df
      in [StMetric ''Arbitrum TVL'' (fmt_billions (tvl_usd (fst arb_latest))),
          StMetric ''Optimism TVL'' (fmt_billions (tvl_usd (fst op_latest))),
          StMetric ''Arbitrum Daily Users'' (fmt_thousands (daily_active_users (snd arb_latest))),
          StMetric ''Optimism Daily Users'' (fmt_thousands (daily_active_users (snd op_latest)))])"

definition trace :: "string \<Rightarrow> merged_row list \<Rightarrow> (merged_row \<Rightarrow> real option)
    \<Rightarrow> string \<times> day list \<times> real option list" where
  "trace name df col = (name, map (\<lambda>row. date (fst row)) df, map col df)"

definition chart :: "string \<Rightarrow> string \<Rightarrow> (merged_row \<Rightarrow> real option)
    \<Rightarrow> merged_row list \<Rightarrow> merged_row list \<Rightarrow> ui list" where
  "chart heading fig_title col arbitrum_full_df optimism_full_df =
     [StSubheader heading,
      StPlotlyChart fig_title
        [trace ''Arbitrum'' arbitrum_full_df col, trace ''Optimism'' optimism_full_df col]]"

definition charts :: "merged_row list \<Rightarrow> merged_row list \<Rightarrow> ui list" where
  "charts a b =
     StHeader ''Comparative Analysis'' #
     chart ''Total Value Locked (TVL)'' ''TVL (USD) Over Time''
       (\<lambda>row. Some (tvl_usd (fst row))) a b @
     chart ''Daily Active Users (DAU)'' ''Daily Active Users Over Time''
       (\<lambda>row. Some (real_of_int (daily_active_users (snd row)))) a b @
     chart ''Transaction Count'' ''Daily Transactions Over Time''
       (\<lambda>row. Some (real_of_int (transaction_count (snd row)))) a b @
     chart ''Average Gas Fee (USD)'' ''Average Gas Fee (USD) Over Time''
       (\<lambda>row. avg_gas_fee_usd (snd row)) a b"

text \<open>\<^verbatim>\<open>df.tail()\<close>: the last five rows.\<close>

definition tail :: "'a list \<Rightarrow> 'a list" where
  "tail df = drop (length df - 5) df"

definition raw_data :: "merged_row list \<Rightarrow> merged_row list \<Rightarrow> ui" where
  "raw_data a b =
     StExpander ''Show Raw Merged Dataframes''
       [StSubheader ''Arbitrum Raw Data'', StDataframe (tail a),
        StSubheader ''Optimism Raw Data'', StDataframe (tail b)]"

text \<open>Lines 246 to 317: the gate on the two merged frames, and the dashboard behind it.\<close>

definition dashboard :: "(merged_row list \<Rightarrow> exn + real option)
    \<Rightarrow> merged_row list \<Rightarrow> merged_row list \<Rightarrow> ui list" where
  "dashboard corr arbitrum_full_df optimism_full_df =
     (if arbitrum_full_df = [] \<or> optimism_full_df = [] then
        [StError ''Data merging failed. Check if all APIs returned data.'']
      else
        [StSuccess ''All data loaded and merged successfully!'',
         StHeader ''At-a-Glance (Latest Data)''] @
        latest_tiles arbitrum_full_df optimism_full_df @
        charts arbitrum_full_df optimism_full_df @
        correlation_section corr arbitrum_full_df optimism_full_df @
        [raw_data arbitrum_full_df optimism_full_df])"

section \<open>The script\<close>

text \<open>The environment the script reads (lines 19, 31, 32).\<close>

record config =
  DUNE_API_KEY :: "string option"
  ARBITRUM_QUERY_ID :: "string option"
  OPTIMISM_QUERY_ID :: "string option"

text \<open>The SQL of lines 35 to 63; the two texts differ in the table only.\<close>

definition sql_text :: "string \<Rightarrow> string" where
  "sql_text table =
     [CHR 0x0A] @ concat (map (\<lambda>l. l @ [CHR 0x0A])
       [''SELECT'',
        ''    DATE_TRUNC('' @ [CHR 0x27] @ ''day'' @ [CHR 0x27] @ '', block_time) AS date,'',
        ''    COUNT(DISTINCT '' @ [CHR 0x22] @ ''from'' @ [CHR 0x22] @ '') AS daily_active_users,'',
        ''    COUNT(hash) AS transaction_count,'',
        ''    SUM(gas_used * gas_price / 1e18 * p.price) / COUNT(hash) AS avg_gas_fee_usd'',
        ''FROM '' @ table @ '' t'',
        ''LEFT JOIN prices.usd p ON p.minute = DATE_TRUNC('' @ [CHR 0x27] @ ''minute'' @
          [CHR 0x27] @ '', t.block_time)'',
        ''    AND p.symbol = '' @ [CHR 0x27] @ ''ETH'' @ [CHR 0x27],
        ''WHERE'',
        ''    t.block_time >= NOW() - INTERVAL '' @ [CHR 0x27] @ ''90'' @ [CHR 0x27] @
          '' DAY -- Look back 90 days'',
        ''GROUP BY 1'',
        ''ORDER BY 1 DESC''])"

definition ARBITRUM_SQL_QUERY :: string where
  "ARBITRUM_SQL_QUERY = sql_text ''arbitrum.transactions''"

definition OPTIMISM_SQL_QUERY :: string where
  "OPTIMISM_SQL_QUERY = sql_text ''optimism.transactions''"

definition arbitrum :: chain where
  "arbitrum = \<lparr>slug = ''arbitrum'', title = ''Arbitrum'',
                query_id_var = ''ARBITRUM_QUERY_ID'', sql_query = ARBITRUM_SQL_QUERY\<rparr>"

definition optimism :: chain where
  "optimism = \<lparr>slug = ''optimism'', title = ''Optimism'',
                query_id_var = ''OPTIMISM_QUERY_ID'', sql_query = OPTIMISM_SQL_QUERY\<rparr>"

text \<open>
  Lines 17 to 26 and 152 to 170: the messages before any data is loaded. The body of
  the setup instructions is cut to its first line.
\<close>

definition preamble :: "config \<Rightarrow> ui list" where
  "preamble cfg =
     (if \<not> truthy (DUNE_API_KEY cfg) then
        [StError (''DUNE_API_KEY environment variable not set. '' @
                  ''Please set it in your deployment settings.'')]
      else []) @
     [StTitle ''L2 Showdown: Arbitrum vs. Optimism''] @
     (if \<not> truthy (ARBITRUM_QUERY_ID cfg) \<or> \<not> truthy (OPTIMISM_QUERY_ID cfg) then
        [StExpander
           ([CHR 0xE2, CHR 0x84, CHR 0xB9, CHR 0xEF, CHR 0xB8, CHR 0x8F] @
            '' Dune API Setup Instructions (Free Tier)'')
           [StInfo ''**To use Dune API with a free account:**'']]
      else [])"

text \<open>Lines 174 to 182, for one chain: the TVL frame, or the exception that ends the run.\<close>

definition load_tvl :: "chain \<Rightarrow> http_world \<Rightarrow> (ui list \<times> (exn + tvl_row list)) \<times> http_world" where
  "load_tvl ch hw =
     (case fetch_defi_llama_tvl (slug ch) hw of
        (Inl e, hw') \<Rightarrow>
          (([StToast (''Fetching DefiLlama TVL data for '' @ slug ch @ ''...'')], Inl e), hw')
      | (Inr df, hw') \<Rightarrow>
          ((StToast (''Fetching DefiLlama TVL data for '' @ slug ch @ ''...'') #
            (if df = [] then
               [StError (''Error fetching '' @ title ch @ '' TVL data from DefiLlama'')]
             else []), Inr df), hw'))"

text \<open>
  The whole script: what the page shows, and the uncaught exception that ended the run,
  if there was one. The correlation function is the parameter of \<open>correlation_section\<close>.
\<close>

definition run_script :: "(merged_row list \<Rightarrow> exn + real option) \<Rightarrow> config
    \<Rightarrow> http_world \<Rightarrow> dune_world \<Rightarrow> ui list \<times> exn option" where
  "run_script corr cfg hw dw =
     (let dune_cl = dune_client (DUNE_API_KEY cfg);
          ui0 = preamble cfg
      in case load_tvl arbitrum hw of
           ((ui1, Inl e), hw1) \<Rightarrow> (ui0 @ ui1, Some e)
         | ((ui1, Inr arbitrum_tvl_df), hw1) \<Rightarrow>
             (case load_tvl optimism hw1 of
                ((ui2, Inl e), hw2) \<Rightarrow> (ui0 @ ui1 @ ui2, Some e)
              | ((ui2, Inr optimism_tvl_df), hw2) \<Rightarrow>
                  (case load_dune arbitrum (ARBITRUM_QUERY_ID cfg) dune_cl dw of
                     ((ui3, arbitrum_dune_df), dw1) \<Rightarrow>
                       (case load_dune optimism (OPTIMISM_QUERY_ID cfg) dune_cl dw1 of
                          ((ui4, optimism_dune_df), dw2) \<Rightarrow>
                            (ui0 @ ui1 @ ui2 @ ui3 @ ui4 @
                             dashboard corr
                               (merge_data arbitrum_tvl_df arbitrum_dune_df)
                               (merge_data optimism_tvl_df optimism_dune_df),
                             None)))))"

definition main :: "config \<Rightarrow> http_world \<Rightarrow> dune_world \<Rightarrow> ui list \<times> exn option" where
  "main cfg hw dw = run_script gas_tx_corr cfg hw dw"

section \<open>Failed requests, and concrete inputs\<close>

text \<open>
  A failed request, in the sense of the \<^verbatim>\<open>except\<close> clause of \<^verbatim>\<open>fetch_defi_llama_tvl\<close>:
  one of the three calls inside the \<^verbatim>\<open>try\<close> that talk to the provider raises.
\<close>

fun request_failed :: "http_reply \<Rightarrow> bool" where
  "request_failed (NoReply m) = True"
| "request_failed (Reply status body) = (400 \<le> status \<and> status < 600 \<or> body = NotJson)"

text \<open>Providers: one that refuses the connection, and four that answer with JSON arrays.\<close>

definition refused_world :: http_world where
  "refused_world = \<lparr>serve = (\<lambda>url k. NoReply ''Connection refused''), sent = []\<rparr>"

definition empty_array_world :: http_world where
  "empty_array_world = \<lparr>serve = (\<lambda>url k. Reply 200 (JsonArray [])), sent = []\<rparr>"





text \<open>Dune backends: one that asks for a paid plan, one that times out.\<close>

definition no_rows :: sql_result where
  "no_rows = \<lparr>result_attr = None, get_rows_method = None, rows_attr = Some []\<rparr>"



text \<open>
  The scenario of the specification: one TVL point at 1700000000 seconds (2023-11-14,
  day 19675) with 1,000,000,000 USD locked, and one analytics row for the same day.
\<close>

definition scenario_points :: "llama_point list" where
  "scenario_points = [\<lparr>point_date = Seconds 1700000000, totalLiquidityUSD = 1000000000\<rparr>]"

definition scenario_http :: http_world where
  "scenario_http = \<lparr>serve = (\<lambda>url k. Reply 200 (JsonArray scenario_points)), sent = []\<rparr>"

definition scenario_tvl_row :: tvl_row where
  "scenario_tvl_row = \<lparr>date = 19675, tvl_usd = 1000000000\<rparr>"

definition scenario_dune_row :: dune_row where
  "scenario_dune_row =
     \<lparr>date = 19675, daily_active_users = 50000, transaction_count = 200000,
      avg_gas_fee_usd = Some (35 / 100)\<rparr>"

definition scenario_dune :: dune_world where
  "scenario_dune =
     \<lparr>run_query_dataframe = (\<lambda>query_id. Returns [scenario_dune_row]),
      run_sql = (\<lambda>name sql. Raises ''not used''), calls = []\<rparr>"

definition scenario_config :: config where
  "scenario_config =
     \<lparr>DUNE_API_KEY = Some ''key'', ARBITRUM_QUERY_ID = Some ''1'', OPTIMISM_QUERY_ID = Some ''2''\<rparr>"

text \<open>
  A merged frame whose gas fee is the same on both days while the transaction count
  varies. The values are small whole numbers, which 64-bit floats hold exactly.
\<close>

definition constant_gas_df :: "merged_row list" where
  "constant_gas_df =
     [(\<lparr>date = 0, tvl_usd = 10\<rparr>,
       \<lparr>date = 0, daily_active_users = 5, transaction_count = 1, avg_gas_fee_usd = Some 1\<rparr>),
      (\<lparr>date = 1, tvl_usd = 11\<rparr>,
       \<lparr>date = 1, daily_active_users = 6, transaction_count = 2, avg_gas_fee_usd = Some 1\<rparr>)]"


section \<open>Evaluating the text functions\<close>

lemma show_nat_small: "n < 10 \<Longrightarrow> show_nat n = [digit_char n]"
  by (simp add: show_nat.simps)

lemma show_nat_big: "10 \<le> n \<Longrightarrow> show_nat n = show_nat (n div 10) @ [digit_char (n mod 10)]"
  by (subst show_nat.simps) simp

lemma group_thousands_small: "n < 1000 \<Longrightarrow> group_thousands n = show_nat n"
  by (simp add: group_thousands.simps)

lemma group_thousands_big:
  "1000 \<le> n \<Longrightarrow> group_thousands n =
     group_thousands (n div 1000) @ '','' @
       [digit_char (n div 100), digit_char (n div 10), digit_char n]"
  by (subst group_thousands.simps) simp

lemmas eval_text = show_nat_small show_nat_big group_thousands_small group_thousands_big
  digit_char_def show_int_def fmt_thousands_def fmt_2f_def round_half_even_def fmt_billions_def
  fmt_float_2f_def Let_def

lemmas eval_py_int = py_int_def strip_def is_space_def digit_value_def

lemma lower_append: "lower (a @ b) = lower a @ lower b"
  by (simp add: lower_def)



section \<open>Properties of the merge stage\<close>

lemma set_pd_merge_inner:
  "set (pd_merge_inner left right) = {p \<in> set left \<times> set right. date (fst p) = date (snd p)}"
  by (auto simp: pd_merge_inner_def)

lemma pd_merge_inner_Nil_right: "pd_merge_inner left [] = []"
  by (induction left) (simp_all add: pd_merge_inner_def)

lemma merge_data_eq_pd_merge: "merge_data tvl_df dune_df = pd_merge_inner tvl_df dune_df"
  by (simp add: merge_data_def pd_merge_inner_Nil_right) (simp add: pd_merge_inner_def)

lemma map_fst_pd_merge_inner:
  "map fst (pd_merge_inner left right) =
     concat (map (\<lambda>l. replicate (length (filter (\<lambda>r. date r = date l) right)) l) left)"
  by (induction left) (simp_all add: pd_merge_inner_def map_replicate_const comp_def)

text \<open>
  Claim C1. \<^verbatim>\<open>merge_data\<close> is the inner join on \<^verbatim>\<open>date\<close>: the rows of the result are
  exactly the pairs of a row of the first frame and a row of the second frame that share
  their date (so every date of the result occurs in both inputs, and every result row
  combines the two input rows of that date), and the result is empty when either input is
  empty.
\<close>

theorem merge_data_inner_join:
  "set (merge_data tvl_df dune_df)
     = {p \<in> set tvl_df \<times> set dune_df. date (fst p) = date (snd p)}
   \<and> date ` fst ` set (merge_data tvl_df dune_df) \<subseteq> date ` set tvl_df \<inter> date ` set dune_df
   \<and> merge_data [] dune_df = []
   \<and> merge_data tvl_df [] = []"
proof -
  have s: "set (merge_data tvl_df dune_df)
     = {p \<in> set tvl_df \<times> set dune_df. date (fst p) = date (snd p)}"
    by (simp only: merge_data_eq_pd_merge set_pd_merge_inner)
  have d: "date ` fst ` set (merge_data tvl_df dune_df) \<subseteq> date ` set tvl_df \<inter> date ` set dune_df"
    unfolding s by force
  show ?thesis using s d by (simp add: merge_data_def)
qed

text \<open>
  Claim C4. \<^verbatim>\<open>merge_data\<close> is a function of its two arguments (the same inputs give the
  same output). Its content does not depend on the order of the arguments: the rows of
  \<^verbatim>\<open>merge_data(B, A)\<close> are the rows of \<^verbatim>\<open>merge_data(A, B)\<close> with the two halves of each
  row exchanged. The rows of \<^verbatim>\<open>merge_data(A, B)\<close> follow the order of \<open>A\<close>: their first
  halves are the rows of \<open>A\<close> in the order of \<open>A\<close>, each repeated once for every row of
  \<open>B\<close> with its date (so a row of \<open>A\<close> without a partner is dropped).
\<close>

theorem merge_data_commutes_in_content:
  "set (merge_data dune_df tvl_df) = prod.swap ` set (merge_data tvl_df dune_df)
   \<and> map fst (merge_data tvl_df dune_df) =
       concat (map (\<lambda>l. replicate (length (filter (\<lambda>r. date r = date l) dune_df)) l) tvl_df)"
proof -
  have "set (merge_data dune_df tvl_df) = prod.swap ` set (merge_data tvl_df dune_df)"
    unfolding merge_data_eq_pd_merge set_pd_merge_inner by force
  then show ?thesis
    by (simp add: merge_data_eq_pd_merge map_fst_pd_merge_inner)
qed

text \<open>
  With at most one row per date in the second frame, which the callers of the merge
  stage guarantee, the surviving rows of the first frame appear once each, in its order.
\<close>

lemma filter_date_unique:
  "distinct (map date right) \<Longrightarrow>
     length (filter (\<lambda>r. date r = d) right) = (if d \<in> date ` set right then 1 else 0)"
  by (induction right) auto

lemma merge_data_keeps_left_order:
  assumes "distinct (map date dune_df)"
  shows "map fst (merge_data tvl_df dune_df) = filter (\<lambda>l. date l \<in> date ` set dune_df) tvl_df"
  unfolding merge_data_eq_pd_merge map_fst_pd_merge_inner
  by (induction tvl_df) (simp_all add: filter_date_unique [OF assms])

section \<open>Properties of the query runner without an API key\<close>

text \<open>
  Claim C10. Without an API key (\<^verbatim>\<open>DUNE_API_KEY\<close> unset or empty) there is no client,
  and both query functions then return the empty frame, raise nothing and leave the
  backend untouched: no call is logged, whatever the backend would have answered. The
  value returned is the one a configured client returns for a query without rows, so
  the caller cannot tell the two apart.
\<close>

theorem query_without_api_key:
  "dune_client None = None \<and> dune_client (Some []) = None
   \<and> query_dune_api_by_id None query_id w = (Inr [], w)
   \<and> query_dune_api_by_sql None query_name sql w = (Inr [], w)
   \<and> fst (query_dune_api_by_id (Some c) query_id (w\<lparr>run_query_dataframe := (\<lambda>q. Returns [])\<rparr>))
       = fst (query_dune_api_by_id None query_id w)
   \<and> fst (query_dune_api_by_sql (Some c) query_name sql (w\<lparr>run_sql := (\<lambda>n s. Returns no_rows)\<rparr>))
       = fst (query_dune_api_by_sql None query_name sql w)"
  by (simp add: dune_client_def truthy_def query_dune_api_by_id_def query_dune_api_by_sql_def
        extract_rows_def no_rows_def)

section \<open>Properties of the gate before the dashboard\<close>

text \<open>
  Claim C6. When the merged frame of either chain is empty, the presentation layer
  shows the one error message and nothing else: no tile, chart, correlation or raw data.
\<close>

theorem dashboard_blocked_on_empty_merge:
  "arbitrum_full_df = [] \<or> optimism_full_df = [] \<Longrightarrow>
     dashboard corr arbitrum_full_df optimism_full_df =
       [StError ''Data merging failed. Check if all APIs returned data.'']"
  by (simp add: dashboard_def)

theorem dashboard_blocked_on_empty_merge_witness:
  "([] = ([] :: merged_row list) \<or> constant_gas_df = [])
   \<and> dashboard gas_tx_corr [] constant_gas_df =
       [StError ''Data merging failed. Check if all APIs returned data.'']"
  using dashboard_blocked_on_empty_merge [of "[]" constant_gas_df gas_tx_corr] by simp

section \<open>Properties of the TVL fetcher\<close>

lemma fetch_sends_one_request:
  "snd (fetch_defi_llama_tvl chain_slug w) = w\<lparr>sent := sent w @ [llama_url chain_slug]\<rparr>"
  by (simp add: fetch_defi_llama_tvl_def requests_get_def Let_def)

text \<open>
  Claim C2, as amended. When the request fails (no connection, an HTTP error status, a
  body that is not JSON), \<^verbatim>\<open>fetch_defi_llama_tvl\<close> raises nothing and returns the empty
  frame, and it has sent exactly one request: there is no retry.
\<close>

theorem fetch_tvl_empty_on_request_failure:
  assumes "request_failed (serve w (llama_url chain_slug) (length (sent w)))"
  shows "fetch_defi_llama_tvl chain_slug w = (Inr [], w\<lparr>sent := sent w @ [llama_url chain_slug]\<rparr>)"
  using assms
  by (cases "serve w (llama_url chain_slug) (length (sent w))")
     (auto simp: fetch_defi_llama_tvl_def requests_get_def Let_def)

theorem fetch_tvl_empty_on_request_failure_witness:
  "request_failed (serve refused_world (llama_url ''arbitrum'') (length (sent refused_world)))
   \<and> fetch_defi_llama_tvl ''arbitrum'' refused_world =
       (Inr [], refused_world\<lparr>sent := sent refused_world @ [llama_url ''arbitrum'']\<rparr>)"
  using fetch_tvl_empty_on_request_failure [of refused_world "''arbitrum''"]
  by (simp add: refused_world_def)

text \<open>
  The claim as stated fails: the provider answers 200 with the JSON array \<^verbatim>\<open>[]\<close>, the
  frame has no \<^verbatim>\<open>date\<close> column, and the \<^verbatim>\<open>KeyError\<close> leaves the function.
\<close>

theorem fetch_tvl_raises_on_empty_array:
  "fst (fetch_defi_llama_tvl ''arbitrum'' empty_array_world) =
     Inl (Raise KeyError [CHR 0x27, CHR ''d'', CHR ''a'', CHR ''t'', CHR ''e'', CHR 0x27])"
  by (simp add: fetch_defi_llama_tvl_def requests_get_def empty_array_world_def frame_of_points_def)









section \<open>Properties of the query runner on a failing backend\<close>













section \<open>The scenario of the specification\<close>

lemma scenario_fetch:
  "fetch_defi_llama_tvl chain_slug (scenario_http\<lparr>sent := s\<rparr>) =
     (Inr [scenario_tvl_row], scenario_http\<lparr>sent := s @ [llama_url chain_slug]\<rparr>)"
  by (simp add: fetch_defi_llama_tvl_def requests_get_def scenario_http_def scenario_points_def
        frame_of_points_def date_of_seconds_def scenario_tvl_row_def)

lemma scenario_merge:
  "merge_data [scenario_tvl_row] [scenario_dune_row] = [(scenario_tvl_row, scenario_dune_row)]"
  by (simp add: merge_data_def pd_merge_inner_def scenario_tvl_row_def scenario_dune_row_def)

lemma scenario_tiles:
  "latest_tiles [(scenario_tvl_row, scenario_dune_row)] [(scenario_tvl_row, scenario_dune_row)] =
     [StMetric ''Arbitrum TVL'' ''$1.00B'', StMetric ''Optimism TVL'' ''$1.00B'',
      StMetric ''Arbitrum Daily Users'' ''50,000'', StMetric ''Optimism Daily Users'' ''50,000'']"
  by (simp add: latest_tiles_def scenario_tvl_row_def scenario_dune_row_def eval_text)

lemma scenario_load_tvl:
  "load_tvl ch (scenario_http\<lparr>sent := s\<rparr>) =
    (([StToast (''Fetching DefiLlama TVL data for '' @ slug ch @ ''...'')], Inr [scenario_tvl_row]),
      scenario_http\<lparr>sent := s @ [llama_url (slug ch)]\<rparr>)"
  by (simp add: load_tvl_def scenario_fetch)

lemma scenario_main:
  "main scenario_config scenario_http scenario_dune =
      ([StTitle ''L2 Showdown: Arbitrum vs. Optimism'',
        StToast ''Fetching DefiLlama TVL data for arbitrum...'',
        StToast ''Fetching DefiLlama TVL data for optimism...'',
        StToast ''Executing Dune query for arbitrum...'',
        StToast ''Executing Dune query for optimism...''] @
       dashboard gas_tx_corr [(scenario_tvl_row, scenario_dune_row)]
         [(scenario_tvl_row, scenario_dune_row)], None)"
proof -
  have h: "scenario_http = scenario_http\<lparr>sent := []\<rparr>"
    by (simp add: scenario_http_def)
  have p1: "py_int ''1'' = Some 1" and p2: "py_int ''2'' = Some 2"
    by (simp_all add: eval_py_int)
  show ?thesis
    apply (subst h)
    apply (simp add: main_def run_script_def Let_def scenario_load_tvl preamble_def
        scenario_config_def truthy_def dune_client_def
        split: prod.splits)
    apply (simp add: load_dune_def run_chain_query_def truthy_def query_dune_api_by_id_def
        scenario_dune_def p1 p2 arbitrum_def optimism_def scenario_merge)
    done
qed

text \<open>
  Claim C7. In the scenario the fetch gives the one TVL row of day 19675, the merge
  gives exactly one row, made of that TVL row and the analytics row, and the page shows
  the tiles of the last (only) row of each chain: \<^verbatim>\<open>$1.00B\<close> for the value locked and
  \<^verbatim>\<open>50,000\<close> for the active users. Both chains are served the scenario's data.
\<close>

theorem scenario_end_to_end:
  "fst (fetch_defi_llama_tvl ''arbitrum'' scenario_http) = Inr [scenario_tvl_row]
   \<and> merge_data [scenario_tvl_row] [scenario_dune_row] = [(scenario_tvl_row, scenario_dune_row)]
   \<and> last [(scenario_tvl_row, scenario_dune_row)] = (scenario_tvl_row, scenario_dune_row)
   \<and> main scenario_config scenario_http scenario_dune =
      ([StTitle ''L2 Showdown: Arbitrum vs. Optimism'',
        StToast ''Fetching DefiLlama TVL data for arbitrum...'',
        StToast ''Fetching DefiLlama TVL data for optimism...'',
        StToast ''Executing Dune query for arbitrum...'',
        StToast ''Executing Dune query for optimism...'',
        StSuccess ''All data loaded and merged successfully!'',
        StHeader ''At-a-Glance (Latest Data)'',
        StMetric ''Arbitrum TVL'' ''$1.00B'',
        StMetric ''Optimism TVL'' ''$1.00B'',
        StMetric ''Arbitrum Daily Users'' ''50,000'',
        StMetric ''Optimism Daily Users'' ''50,000''] @
       charts [(scenario_tvl_row, scenario_dune_row)] [(scenario_tvl_row, scenario_dune_row)] @
       correlation_section gas_tx_corr
         [(scenario_tvl_row, scenario_dune_row)] [(scenario_tvl_row, scenario_dune_row)] @
       [raw_data [(scenario_tvl_row, scenario_dune_row)] [(scenario_tvl_row, scenario_dune_row)]],
       None)"
proof -
  have f: "fst (fetch_defi_llama_tvl ''arbitrum'' scenario_http) = Inr [scenario_tvl_row]"
    using scenario_fetch [of "''arbitrum''" "[]"] by (simp add: scenario_http_def)
  show ?thesis
    unfolding scenario_main using f scenario_merge scenario_tiles by (simp add: dashboard_def)
qed

section \<open>Properties of the correlation section\<close>










end
